theory Spec2Isabelle
  imports Complex_Main "HOL-Library.Sublist"
begin

section \<open>JavaScript numbers\<close>

text \<open>
  A JavaScript number is a finite value, one of the two infinities, or NaN. Every finite
  double is a rational, so finite values are carried as \<open>rat\<close>; arithmetic on them is exact:
  the rounding of a result to the nearest double, the overflow of a finite result to an
  infinity and the sign of zero are not modelled. Everything else follows IEEE 754 as
  JavaScript applies it: NaN is absorbing, \<open>Infinity - Infinity\<close>, \<open>0 * Infinity\<close>,
  \<open>0 / 0\<close> and \<open>Infinity / Infinity\<close> are NaN, and a nonzero value divided by zero is an
  infinity.
\<close>

datatype jsnum = Fin rat | PInf | NInf | NaN

fun isNaN :: "jsnum \<Rightarrow> bool" where
  "isNaN NaN = True"
| "isNaN _ = False"

fun isFinite :: "jsnum \<Rightarrow> bool" where
  "isFinite (Fin _) = True"
| "isFinite _ = False"

text \<open>Truthiness of a number: \<open>0\<close> and NaN are falsy.\<close>

fun truthy :: "jsnum \<Rightarrow> bool" where
  "truthy (Fin r) = (r \<noteq> 0)"
| "truthy NaN = False"
| "truthy _ = True"

text \<open>\<open>x || d\<close> on numbers.\<close>

definition orElse :: "jsnum \<Rightarrow> jsnum \<Rightarrow> jsnum" where
  "orElse x d = (if truthy x then x else d)"

fun jadd :: "jsnum \<Rightarrow> jsnum \<Rightarrow> jsnum" where
  "jadd (Fin a) (Fin b) = Fin (a + b)"
| "jadd NaN _ = NaN"
| "jadd _ NaN = NaN"
| "jadd PInf NInf = NaN"
| "jadd NInf PInf = NaN"
| "jadd PInf _ = PInf"
| "jadd _ PInf = PInf"
| "jadd NInf _ = NInf"
| "jadd _ NInf = NInf"

text \<open>The sign of a number that is not NaN, as \<open>-1\<close>, \<open>0\<close> or \<open>1\<close>.\<close>

fun jsign :: "jsnum \<Rightarrow> int" where
  "jsign (Fin a) = (if a < 0 then - 1 else if a = 0 then 0 else 1)"
| "jsign PInf = 1"
| "jsign NInf = - 1"
| "jsign NaN = 0"

definition signedInf :: "int \<Rightarrow> jsnum" where
  "signedInf s = (if s = 0 then NaN else if 0 < s then PInf else NInf)"

fun jmul :: "jsnum \<Rightarrow> jsnum \<Rightarrow> jsnum" where
  "jmul (Fin a) (Fin b) = Fin (a * b)"
| "jmul NaN _ = NaN"
| "jmul _ NaN = NaN"
| "jmul x y = signedInf (jsign x * jsign y)"

text \<open>
  Division. A zero divisor is taken as \<open>+0\<close>: the only division of the program whose
  divisor can be zero divides by the result of \<open>parseInt\<close> on a run of digits.
\<close>

fun jdiv :: "jsnum \<Rightarrow> jsnum \<Rightarrow> jsnum" where
  "jdiv (Fin a) (Fin b) = (if b = 0 then signedInf (jsign (Fin a)) else Fin (a / b))"
| "jdiv NaN _ = NaN"
| "jdiv _ NaN = NaN"
| "jdiv (Fin a) _ = Fin 0"
| "jdiv x (Fin b) = signedInf (jsign x * (if b < 0 then - 1 else 1))"
| "jdiv _ _ = NaN"

text \<open>\<open>x > y\<close> and \<open>x < y\<close>: false as soon as one side is NaN.\<close>

fun jlt :: "jsnum \<Rightarrow> jsnum \<Rightarrow> bool" where
  "jlt (Fin a) (Fin b) = (a < b)"
| "jlt NaN _ = False"
| "jlt _ NaN = False"
| "jlt NInf NInf = False"
| "jlt NInf _ = True"
| "jlt _ NInf = False"
| "jlt PInf _ = False"
| "jlt _ PInf = True"

definition jgt :: "jsnum \<Rightarrow> jsnum \<Rightarrow> bool" where
  "jgt x y = jlt y x"

text \<open>\<open>Math.round\<close>: the nearest integer, a half rounded up.\<close>

fun round_js :: "jsnum \<Rightarrow> jsnum" where
  "round_js (Fin a) = Fin (of_int \<lfloor>a + 1 / 2\<rfloor>)"
| "round_js x = x"

text \<open>The guard \<open>if (isNaN(o[key])) o[key] = 0\<close> applied to one field.\<close>

definition nanToZero :: "jsnum \<Rightarrow> jsnum" where
  "nanToZero x = (if isNaN x then Fin 0 else x)"

section \<open>Nutrition values and the household measurements table\<close>

record nutrition =
  calories :: jsnum
  protein :: jsnum
  carbs :: jsnum
  fat :: jsnum
  fiber :: jsnum

record serving = nutrition +
  serving_size_g :: jsnum

text \<open>
  An entry of \<open>measurements\<close> in \<open>data/householdMeasurements.json\<close> is a plain number
  or an object from ingredient names (and \<open>default\<close>) to numbers.
\<close>

datatype unitData = UnitNumber jsnum | UnitObject "string \<rightharpoonup> jsnum"

text \<open>
  The table \<open>data/householdMeasurements.json\<close> is not part of the sources; it is a
  parameter of everything that reads it. \<open>foodTypes\<close> gives the \<open>serving\<close> of a dish
  type, \<open>ingredients\<close> the category of an ingredient, \<open>ingredientCategories\<close> the
  grams per unit of a category. A lookup sees the table's own keys only.
\<close>

record householdMeasurements =
  foodTypes :: "string \<rightharpoonup> jsnum"
  measurements :: "string \<rightharpoonup> unitData"
  ingredients :: "string \<rightharpoonup> string"
  ingredientCategories :: "string \<rightharpoonup> (string \<rightharpoonup> jsnum)"

section \<open>NutritionCalculator.calculatePerServing\<close>

text \<open>\<open>servingSize / (totalWeight || 1)\<close>, the ratio of both branches.\<close>

definition servingRatio :: "jsnum \<Rightarrow> jsnum \<Rightarrow> jsnum" where
  "servingRatio servingSize totalWeight = jdiv servingSize (orElse totalWeight (Fin 1))"

text \<open>\<open>Math.round(x * ratio) || 0\<close> and \<open>Math.round(x * ratio * 10) / 10 || 0\<close>.\<close>

definition roundWhole :: "jsnum \<Rightarrow> jsnum \<Rightarrow> jsnum" where
  "roundWhole x ratio = orElse (round_js (jmul x ratio)) (Fin 0)"

definition roundTenth :: "jsnum \<Rightarrow> jsnum \<Rightarrow> jsnum" where
  "roundTenth x ratio =
     orElse (jdiv (round_js (jmul (jmul x ratio) (Fin 10))) (Fin 10)) (Fin 0)"

definition scaled :: "nutrition \<Rightarrow> jsnum \<Rightarrow> jsnum \<Rightarrow> serving" where
  "scaled totalNutrition ratio servingSize =
     \<lparr> calories = roundWhole (calories totalNutrition) ratio,
       protein = roundTenth (protein totalNutrition) ratio,
       carbs = roundTenth (carbs totalNutrition) ratio,
       fat = roundTenth (fat totalNutrition) ratio,
       fiber = roundTenth (fiber totalNutrition) ratio,
       serving_size_g = servingSize \<rparr>"

definition calculatePerServing ::
  "householdMeasurements \<Rightarrow> nutrition \<Rightarrow> jsnum \<Rightarrow> string \<Rightarrow> serving" where
  "calculatePerServing hm totalNutrition totalWeight dishType =
     (case foodTypes hm dishType of
        None \<Rightarrow>
          (let defaultServingSize = Fin 150;
               ratio = servingRatio defaultServingSize totalWeight
           in scaled totalNutrition ratio defaultServingSize)
      | Some servingSize \<Rightarrow>
          (let ratio = servingRatio servingSize totalWeight;
               result = scaled totalNutrition ratio servingSize
           in \<lparr> calories = nanToZero (calories result),
                protein = nanToZero (protein result),
                carbs = nanToZero (carbs result),
                fat = nanToZero (fat result),
                fiber = nanToZero (fiber result),
                serving_size_g = nanToZero (serving_size_g result) \<rparr>))"

section \<open>ErrorHandler.validateNutritionValues\<close>

text \<open>
  The copy is capped at 1000 calories, then every negative field of the copy is set to
  0, then protein, carbs and fat are capped, each test reading the argument.
\<close>

definition floorZero :: "jsnum \<Rightarrow> jsnum" where
  "floorZero v = (if jlt v (Fin 0) then Fin 0 else v)"

definition validateNutritionValues :: "nutrition \<Rightarrow> nutrition" where
  "validateNutritionValues n =
     (let v1 = (if jgt (calories n) (Fin 1000) then n\<lparr>calories := Fin 1000\<rparr> else n);
          v2 = \<lparr> calories = floorZero (calories v1), protein = floorZero (protein v1),
                 carbs = floorZero (carbs v1), fat = floorZero (fat v1),
                 fiber = floorZero (fiber v1) \<rparr>;
          v3 = (if jgt (protein n) (Fin 100) then v2\<lparr>protein := Fin 100\<rparr> else v2);
          v4 = (if jgt (carbs n) (Fin 200) then v3\<lparr>carbs := Fin 200\<rparr> else v3);
          v5 = (if jgt (fat n) (Fin 100) then v4\<lparr>fat := Fin 100\<rparr> else v4)
      in v5)"

section \<open>Strings\<close>

text \<open>
  A string is a list of characters; a character stands for a UTF-16 code unit below 256
  (Latin-1), which covers the vocabulary of the program. \<open>\s\<close> and \<open>trim\<close> see the
  white space of that range, \<open>\d\<close> the ten digits, \<open>\w\<close> the ASCII letters, the digits
  and the underscore.
\<close>

definition isDigit :: "char \<Rightarrow> bool" where
  "isDigit c = (c \<in> set ''0123456789'')"

definition isLetter :: "char \<Rightarrow> bool" where
  "isLetter c = (c \<in> set ''abcdefghijklmnopqrstuvwxyzABCDEFGHIJKLMNOPQRSTUVWXYZ'')"

definition isWordChar :: "char \<Rightarrow> bool" where
  "isWordChar c = (isLetter c \<or> isDigit c \<or> c = CHR ''_'')"

definition isSpace :: "char \<Rightarrow> bool" where
  "isSpace c = (c \<in> {CHR 0x09, CHR 0x0A, CHR 0x0B, CHR 0x0C, CHR 0x0D, CHR '' '', CHR 0xA0})"

text \<open>\<open>toLowerCase\<close>: the ASCII capitals and the Latin-1 capitals \<open>0xC0..0xDE\<close> but \<open>0xD7\<close>.\<close>

definition lowerChar :: "char \<Rightarrow> char" where
  "lowerChar c =
     (let n = (of_char c :: nat)
      in if (65 \<le> n \<and> n \<le> 90) \<or> (192 \<le> n \<and> n \<le> 222 \<and> n \<noteq> 215)
         then char_of (n + 32) else c)"

definition toLowerCase :: "string \<Rightarrow> string" where
  "toLowerCase s = map lowerChar s"

definition trim :: "string \<Rightarrow> string" where
  "trim s = rev (dropWhile isSpace (rev (dropWhile isSpace s)))"

fun startsWith :: "string \<Rightarrow> string \<Rightarrow> bool" where
  "startsWith s [] = True"
| "startsWith [] (p # ps) = False"
| "startsWith (c # cs) (p # ps) = (c = p \<and> startsWith cs ps)"

text \<open>\<open>s.includes(t)\<close>.\<close>

fun includes_js :: "string \<Rightarrow> string \<Rightarrow> bool" where
  "includes_js [] t = (t = [])"
| "includes_js (c # cs) t = (startsWith (c # cs) t \<or> includes_js cs t)"

text \<open>
  A search \<open>s.match(r)\<close> without the \<open>g\<close> flag tries the pattern at every index from
  the left and keeps the first success; \<open>m\<close> is the pattern tried at one index.
\<close>

fun firstMatch :: "(string \<Rightarrow> 'a option) \<Rightarrow> string \<Rightarrow> 'a option" where
  "firstMatch m [] = m []"
| "firstMatch m (c # cs) = (case m (c # cs) of Some r \<Rightarrow> Some r | None \<Rightarrow> firstMatch m cs)"

text \<open>
  The token \<open>(\d+(\.\d+)?)\<close> at the head of a string: its text and what follows it.
  The token is taken greedily. In every pattern of the program the token is followed by
  white space, a letter, a slash or nothing, none of which is a digit or a dot, so giving
  back digits or the fraction never turns a failure into a match.
\<close>

definition numberAt :: "string \<Rightarrow> (string \<times> string) option" where
  "numberAt s =
     (let ds = takeWhile isDigit s; r = dropWhile isDigit s
      in if ds = [] then None
         else (case r of
                 c # r' \<Rightarrow>
                   if c = CHR ''.'' \<and> takeWhile isDigit r' \<noteq> []
                   then Some (ds @ c # takeWhile isDigit r', dropWhile isDigit r')
                   else Some (ds, r)
               | [] \<Rightarrow> Some (ds, r)))"

text \<open>The token \<open>([a-zA-Z]+)\<close> at the head of a string.\<close>

definition lettersAt :: "string \<Rightarrow> string option" where
  "lettersAt s = (if takeWhile isLetter s = [] then None else Some (takeWhile isLetter s))"

subsection \<open>parseFloat and parseInt\<close>

definition digitVal :: "char \<Rightarrow> nat" where
  "digitVal c = of_char c - 48"

definition digitsVal :: "string \<Rightarrow> nat" where
  "digitsVal ds = foldl (\<lambda>n c. 10 * n + digitVal c) 0 ds"

text \<open>A sign in front of a numeral: whether it is a minus, and the rest.\<close>

fun signOf :: "string \<Rightarrow> bool \<times> string" where
  "signOf [] = (False, [])"
| "signOf (c # cs) =
     (if c = CHR ''-'' then (True, cs) else if c = CHR ''+'' then (False, cs)
      else (False, c # cs))"

text \<open>The exponent part \<open>[eE][+-]?\d+\<close> at the head of a string, 0 when there is none.\<close>

fun exponentAt :: "string \<Rightarrow> int" where
  "exponentAt [] = 0"
| "exponentAt (c # cs) =
     (if c = CHR ''e'' \<or> c = CHR ''E'' then
        (let (neg, r) = signOf cs; ds = takeWhile isDigit r
         in if ds = [] then 0 else if neg then - int (digitsVal ds) else int (digitsVal ds))
      else 0)"

definition scale10 :: "rat \<Rightarrow> int \<Rightarrow> rat" where
  "scale10 m e = (if 0 \<le> e then m * 10 ^ nat e else m / 10 ^ nat (- e))"

text \<open>
  \<open>parseFloat\<close>: leading white space is skipped, then the longest prefix that is a
  decimal literal (a sign, then \<open>Infinity\<close>, or digits with an optional fraction and an
  optional exponent) is read; without such a prefix the result is NaN. \<open>decimalAt\<close> reads
  the unsigned digits: an integer part, a dot with a fraction part (one of the two parts
  may be empty, not both), an exponent.
\<close>

definition decimalAt :: "string \<Rightarrow> rat option" where
  "decimalAt u =
     (let ip = takeWhile isDigit u; r1 = dropWhile isDigit u;
          hasDot = (r1 \<noteq> [] \<and> hd r1 = CHR ''.'');
          fp = (if hasDot then takeWhile isDigit (tl r1) else []);
          r2 = (if hasDot then dropWhile isDigit (tl r1) else r1)
      in if ip = [] \<and> fp = [] then None
         else Some (scale10 (of_nat (digitsVal (ip @ fp)))
                            (exponentAt r2 - int (length fp))))"

definition parseFloat :: "string \<Rightarrow> jsnum" where
  "parseFloat s =
     (case signOf (dropWhile isSpace s) of
        (neg, u) \<Rightarrow>
          if startsWith u ''Infinity'' then (if neg then NInf else PInf)
          else (case decimalAt u of
                  None \<Rightarrow> NaN
                | Some m \<Rightarrow> Fin (if neg then - m else m)))"

text \<open>\<open>parseInt\<close> is only applied to a run of digits captured by \<open>(\d+)\<close>.\<close>

definition parseInt :: "string \<Rightarrow> jsnum" where
  "parseInt ds = Fin (of_nat (digitsVal ds))"

section \<open>QuantityStandardizer.parseQuantity\<close>

text \<open>The values a caller can pass where a string is expected.\<close>

datatype jsval = Undefined | Null | Boolean bool | Number jsnum | String string | Object

record parsedQuantity =
  value_q :: jsnum
  unit_q :: "string option"

text \<open>\<open>/(\d+(\.\d+)?)\s*g/\<close> at one index: the captured number.\<close>

definition gramsAt :: "string \<Rightarrow> string option" where
  "gramsAt s =
     (case numberAt s of
        None \<Rightarrow> None
      | Some (num, r) \<Rightarrow> if startsWith (dropWhile isSpace r) ''g'' then Some num else None)"

text \<open>\<open>/(\d+(\.\d+)?)\s*(pound|lb)s?/\<close> at one index.\<close>

definition poundsAt :: "string \<Rightarrow> string option" where
  "poundsAt s =
     (case numberAt s of
        None \<Rightarrow> None
      | Some (num, r) \<Rightarrow>
          if startsWith (dropWhile isSpace r) ''pound'' \<or> startsWith (dropWhile isSpace r) ''lb''
          then Some num else None)"

text \<open>\<open>/(\d+(\.\d+)?)\s*ml/\<close> at one index.\<close>

definition mlAt :: "string \<Rightarrow> string option" where
  "mlAt s =
     (case numberAt s of
        None \<Rightarrow> None
      | Some (num, r) \<Rightarrow> if startsWith (dropWhile isSpace r) ''ml'' then Some num else None)"

text \<open>\<open>/(\d+(\.\d+)?)/\<close> at one index.\<close>

definition plainNumberAt :: "string \<Rightarrow> string option" where
  "plainNumberAt s = map_option fst (numberAt s)"

text \<open>\<open>/(\d+)\s*\/\s*(\d+)/\<close> at one index: numerator and denominator.\<close>

definition fractionAt :: "string \<Rightarrow> (string \<times> string) option" where
  "fractionAt s =
     (let n = takeWhile isDigit s; r = dropWhile isSpace (dropWhile isDigit s)
      in if n = [] then None
         else (case r of
                 [] \<Rightarrow> None
               | c # r' \<Rightarrow>
                   (let d = takeWhile isDigit (dropWhile isSpace r')
                    in if c = CHR ''/'' \<and> d \<noteq> [] then Some (n, d) else None)))"

text \<open>\<open>/\/\s*\d+\s+([a-zA-Z]+)/\<close> at one index: the captured unit.\<close>

definition fractionUnitAt :: "string \<Rightarrow> string option" where
  "fractionUnitAt s =
     (case s of
        [] \<Rightarrow> None
      | c # r \<Rightarrow>
          (let r1 = dropWhile isSpace r; r2 = dropWhile isDigit r1
           in if c = CHR ''/'' \<and> takeWhile isDigit r1 \<noteq> [] \<and> takeWhile isSpace r2 \<noteq> []
              then lettersAt (dropWhile isSpace r2) else None))"

text \<open>\<open>/(\d+(\.\d+)?)\s+([a-zA-Z]+)/\<close> at one index: number and unit.\<close>

definition generalAt :: "string \<Rightarrow> (string \<times> string) option" where
  "generalAt s =
     (case numberAt s of
        None \<Rightarrow> None
      | Some (num, r) \<Rightarrow>
          if takeWhile isSpace r = [] then None
          else map_option (Pair num) (lettersAt (dropWhile isSpace r)))"

text \<open>The first two parts of \<open>s.split('-')\<close>, for a string that contains a hyphen.\<close>

definition splitHyphen :: "string \<Rightarrow> string \<times> string" where
  "splitHyphen s =
     (takeWhile (\<lambda>c. c \<noteq> CHR ''-'') s,
      takeWhile (\<lambda>c. c \<noteq> CHR ''-'') (tl (dropWhile (\<lambda>c. c \<noteq> CHR ''-'') s)))"

text \<open>
  The tail of \<open>parseQuantity\<close>, from the general pattern on; the branches before it fall
  through to it when their pattern does not match.
\<close>

definition parseGeneral :: "string \<Rightarrow> parsedQuantity" where
  "parseGeneral s =
     (case firstMatch generalAt s of
        Some (num, u) \<Rightarrow> \<lparr> value_q = parseFloat num, unit_q = Some (toLowerCase (trim u)) \<rparr>
      | None \<Rightarrow>
          if includes_js (toLowerCase s) ''to taste'' \<or> includes_js (toLowerCase s) ''as needed''
             \<or> includes_js (toLowerCase s) ''as required''
          then \<lparr> value_q = Fin (1 / 2), unit_q = Some ''teaspoon'' \<rparr>
          else \<lparr> value_q = Fin 0, unit_q = None \<rparr>)"

definition parseFraction :: "string \<Rightarrow> parsedQuantity" where
  "parseFraction s =
     (case (if includes_js s ''/'' then firstMatch fractionAt s else None) of
        Some (n, d) \<Rightarrow>
          \<lparr> value_q = jdiv (parseInt n) (parseInt d),
            unit_q = map_option (\<lambda>u. toLowerCase (trim u)) (firstMatch fractionUnitAt s) \<rparr>
      | None \<Rightarrow> parseGeneral s)"

definition parseRange :: "string \<Rightarrow> parsedQuantity" where
  "parseRange s =
     (if includes_js s ''-'' then
        (let (p0, p1) = splitHyphen s; val1 = parseFloat (trim p0)
         in case firstMatch plainNumberAt p1 of
              Some num \<Rightarrow>
                \<lparr> value_q = jdiv (jadd val1 (parseFloat num)) (Fin 2),
                  unit_q = map_option (\<lambda>u. toLowerCase (trim u)) (firstMatch lettersAt p1) \<rparr>
            | None \<Rightarrow> parseFraction s)
      else parseFraction s)"

definition parseMl :: "string \<Rightarrow> parsedQuantity" where
  "parseMl s =
     (case (if includes_js s ''ml'' then firstMatch mlAt s else None) of
        Some num \<Rightarrow> \<lparr> value_q = parseFloat num, unit_q = Some ''ml'' \<rparr>
      | None \<Rightarrow> parseRange s)"

definition parsePounds :: "string \<Rightarrow> parsedQuantity" where
  "parsePounds s =
     (case (if includes_js s ''pound'' \<or> includes_js s ''lb'' then firstMatch poundsAt s else None) of
        Some num \<Rightarrow> \<lparr> value_q = jmul (parseFloat num) (Fin (453592 / 1000)), unit_q = Some ''g'' \<rparr>
      | None \<Rightarrow> parseMl s)"

text \<open>
  \<open>parseQuantity\<close>; its second argument, the ingredient name, only feeds a log line.
\<close>

definition parseQuantity :: "jsval \<Rightarrow> parsedQuantity" where
  "parseQuantity quantityStr =
     (case quantityStr of
        String s \<Rightarrow>
          if s = [] then \<lparr> value_q = Fin 0, unit_q = None \<rparr>
          else
            (case (if includes_js s ''g'' \<and> \<not> includes_js s ''glass'' then firstMatch gramsAt s
                   else None) of
               Some num \<Rightarrow> \<lparr> value_q = parseFloat num, unit_q = Some ''g'' \<rparr>
             | None \<Rightarrow> parsePounds s)
      | _ \<Rightarrow> \<lparr> value_q = Fin 0, unit_q = None \<rparr>)"

section \<open>QuantityStandardizer.convertToGrams\<close>

text \<open>\<open>d && d[k]\<close> for an entry \<open>d\<close> of \<open>measurements\<close>: a number has no properties.\<close>

fun entryOf :: "unitData option \<Rightarrow> string \<Rightarrow> jsnum option" where
  "entryOf (Some (UnitObject m)) k = m k"
| "entryOf _ k = None"

text \<open>A property that is absent reads as \<open>undefined\<close>, which is falsy.\<close>

fun truthyEntry :: "jsnum option \<Rightarrow> bool" where
  "truthyEntry (Some v) = truthy v"
| "truthyEntry None = False"

text \<open>The property key a unit is converted to: \<open>null\<close> becomes \<open>"null"\<close>.\<close>

fun keyOf :: "string option \<Rightarrow> string" where
  "keyOf None = ''null''"
| "keyOf (Some u) = u"

text \<open>The table \<open>defaultConversions\<close>.\<close>

definition defaultConversions :: "string \<rightharpoonup> jsnum" where
  "defaultConversions =
     [''cup'' \<mapsto> Fin 150, ''tablespoon'' \<mapsto> Fin 15, ''teaspoon'' \<mapsto> Fin 5,
      ''piece'' \<mapsto> Fin 30, ''clove'' \<mapsto> Fin 5, ''inch'' \<mapsto> Fin 10,
      ''handful'' \<mapsto> Fin 30, ''pinch'' \<mapsto> Fin (1 / 2)]"

text \<open>The part of \<open>convertToGrams\<close> after the handlers of \<open>piece\<close> and \<open>medium\<close>.\<close>

definition convertByTable ::
  "householdMeasurements \<Rightarrow> jsnum \<Rightarrow> string option \<Rightarrow> string \<Rightarrow> jsnum" where
  "convertByTable hm v u normalizedIngredient =
     (let category = (case ingredients hm normalizedIngredient of
                        Some c \<Rightarrow> if c = [] then None else Some c
                      | None \<Rightarrow> None);
          byCategory = (case category of
                          None \<Rightarrow> None
                        | Some c \<Rightarrow>
                            (case ingredientCategories hm c of
                               None \<Rightarrow> None
                             | Some conv \<Rightarrow> conv (keyOf u)))
      in if truthyEntry byCategory then jmul v (the byCategory)
         else
           (case (if u = None \<or> u = Some [] then None else measurements hm (keyOf u)) of
              Some (UnitObject m) \<Rightarrow>
                if truthyEntry (m normalizedIngredient) then jmul v (the (m normalizedIngredient))
                else if truthyEntry (m ''default'') then jmul v (the (m ''default''))
                else jmul v (Fin 10)
            | Some (UnitNumber f) \<Rightarrow>
                if truthy f then jmul v f
                else jmul v (orElse (case defaultConversions (keyOf u) of
                                       Some d \<Rightarrow> d | None \<Rightarrow> NaN) (Fin 10))
            | None \<Rightarrow>
                jmul v (orElse (case defaultConversions (keyOf u) of
                                  Some d \<Rightarrow> d | None \<Rightarrow> NaN) (Fin 10))))"

definition convertToGrams ::
  "householdMeasurements \<Rightarrow> parsedQuantity \<Rightarrow> string \<Rightarrow> jsnum" where
  "convertToGrams hm parsedQuantity mappedIngredientName =
     (let v = value_q parsedQuantity; u = unit_q parsedQuantity
      in if u = Some ''g'' then v
         else if u = Some ''ml'' then v
         else
           (let normalizedIngredient = trim (toLowerCase mappedIngredientName);
                piece = measurements hm ''piece'';
                medium = measurements hm ''medium''
            in if u = Some ''piece'' \<and> truthyEntry (entryOf piece normalizedIngredient)
               then jmul v (the (entryOf piece normalizedIngredient))
               else if u = Some ''piece'' \<and> truthyEntry (entryOf piece ''default'')
               then jmul v (the (entryOf piece ''default''))
               else if u = Some ''medium'' \<and> truthyEntry (entryOf medium normalizedIngredient)
               then jmul v (the (entryOf medium normalizedIngredient))
               else if u = Some ''medium'' then jmul v (Fin 120)
               else convertByTable hm v u normalizedIngredient))"

definition standardizeToGrams :: "householdMeasurements \<Rightarrow> jsval \<Rightarrow> string \<Rightarrow> jsnum" where
  "standardizeToGrams hm quantity mappedIngredientName =
     convertToGrams hm (parseQuantity quantity) mappedIngredientName"

section \<open>IngredientMapper\<close>

text \<open>
  A row of \<open>data/processedNutritionDB.csv\<close> as \<open>loadNutritionDBSync\<close> builds it: every
  column is a string, empty when the line has no value for it.
\<close>

record nutritionRow =
  ingredient :: string
  calories_per_100g :: string
  protein_per_100g :: string
  carbs_per_100g :: string
  fat_per_100g :: string
  fiber_per_100g :: string

subsection \<open>preprocessIngredientName\<close>

definition wordsToRemove :: "string list" where
  "wordsToRemove =
     [''chopped'', ''diced'', ''sliced'', ''minced'', ''grated'', ''cubed'', ''pureed'',
      ''finely'', ''roughly'', ''cut into'', ''cubes'', ''paste'',
      ''fresh'', ''dried'', ''powder'', ''whole'', ''leaves'', ''seeds'',
      ''boneless'', ''skinless'', ''plain'',
      ''for garnish'', ''to taste'', ''as needed'', ''as required'',
      ''medium'', ''large'', ''small'',
      ''1-inch'', ''pieces'']"

text \<open>The unit alternatives of \<open>quantityRegex\<close>, in the order the pattern lists them.\<close>

definition quantityUnits :: "string list" where
  "quantityUnits =
     [''cup'', ''tablespoon'', ''teaspoon'', ''tsp'', ''tbsp'', ''g'', ''kg'', ''ml'', ''l'',
      ''pound'', ''lb'', ''oz'', ''katori'', ''glass'']"

text \<open>
  \<open>\d+(\.\d+)?\s*\/?\d*\s*\<close> at the head of a string: what follows it. Every character
  it consumes is a digit, a dot, white space or a slash, and a unit starts with a letter,
  so the unit can only start where the greedy reading stops.
\<close>

definition quantityPrefix :: "string \<Rightarrow> string option" where
  "quantityPrefix s =
     (case numberAt s of
        None \<Rightarrow> None
      | Some (num, r) \<Rightarrow>
          (let r1 = dropWhile isSpace r;
               r2 = (if r1 \<noteq> [] \<and> hd r1 = CHR ''/'' then tl r1 else r1)
           in Some (dropWhile isSpace (dropWhile isDigit r2))))"

text \<open>
  \<open>(cup|...|glass)s?\<close> at the head of \<open>r\<close>, followed by a position that satisfies \<open>ok\<close>
  (the word boundary or the end of the string): the alternatives are tried in order, the
  optional \<open>s\<close> is tried first with the letter, then without. The result is what follows
  the match. The pattern has the flag \<open>i\<close>: letters are compared in lower case.
\<close>

fun unitTail :: "(string \<Rightarrow> bool) \<Rightarrow> string list \<Rightarrow> string \<Rightarrow> string option" where
  "unitTail ok [] r = None"
| "unitTail ok (u # us) r =
     (let r' = drop (length u) r
      in if startsWith (toLowerCase r) u \<and> startsWith (toLowerCase r') ''s'' \<and> ok (tl r')
         then Some (tl r')
         else if startsWith (toLowerCase r) u \<and> ok r' then Some r'
         else unitTail ok us r)"

text \<open>A word boundary after a letter: the end of the string or a character outside \<open>\w\<close>.\<close>

definition boundaryAfter :: "string \<Rightarrow> bool" where
  "boundaryAfter r = (r = [] \<or> \<not> isWordChar (hd r))"

text \<open>The first alternative of \<open>quantityRegex\<close>, anchored at the start: what follows it.\<close>

definition quantityAtStart :: "string \<Rightarrow> string option" where
  "quantityAtStart s =
     (case quantityPrefix s of
        None \<Rightarrow> None
      | Some r \<Rightarrow> unitTail boundaryAfter quantityUnits r)"

text \<open>The second alternative at one index, anchored at the end of the string.\<close>

definition quantityToEnd :: "string \<Rightarrow> bool" where
  "quantityToEnd s =
     (case quantityPrefix s of
        None \<Rightarrow> False
      | Some r \<Rightarrow> unitTail (\<lambda>t. t = []) quantityUnits r \<noteq> None)"

text \<open>
  The search for the second alternative from the left; \<open>b\<close> tells whether a word
  boundary can precede a digit here (the previous character is absent or outside \<open>\w\<close>).
  A match runs to the end of the string, so replacing it leaves what precedes it.
\<close>

fun cutQuantityAtEnd :: "bool \<Rightarrow> string \<Rightarrow> string" where
  "cutQuantityAtEnd b [] = []"
| "cutQuantityAtEnd b (c # cs) =
     (if b \<and> quantityToEnd (c # cs) then []
      else c # cutQuantityAtEnd (\<not> isWordChar c) cs)"

text \<open>
  \<open>s.replace(quantityRegex, '')\<close>. The pattern has no flag \<open>g\<close>: the first match from
  the left is removed, and at the first index the first alternative is tried first.
\<close>

definition removeQuantity :: "string \<Rightarrow> string" where
  "removeQuantity s =
     (case quantityAtStart s of
        Some r \<Rightarrow> r
      | None \<Rightarrow> cutQuantityAtEnd True s)"

text \<open>
  \<open>s.replace(new RegExp('\\b' + word + '\\b', 'gi'), '')\<close>: every match from the left is
  removed, the search resuming after a match. \<open>b\<close> tells whether the previous character
  is absent or outside \<open>\w\<close>; every word of \<open>wordsToRemove\<close> starts and ends with a
  character of \<open>\w\<close>.
\<close>

function removeWord :: "string \<Rightarrow> bool \<Rightarrow> string \<Rightarrow> string" where
  "removeWord w b [] = []"
| "removeWord w b (c # cs) =
     (if w \<noteq> [] \<and> b \<and> startsWith (toLowerCase (c # cs)) w
         \<and> boundaryAfter (drop (length w) (c # cs))
      then removeWord w (\<not> isWordChar (last w)) (drop (length w) (c # cs))
      else c # removeWord w (\<not> isWordChar c) cs)"
  by pat_completeness auto
termination
  by (relation "measure (\<lambda>(w, b, s). length s)") auto

text \<open>\<open>s.replace(/\s+/g, x)\<close> for a one-character replacement \<open>x\<close>.\<close>

function replaceSpaces :: "char \<Rightarrow> string \<Rightarrow> string" where
  "replaceSpaces x [] = []"
| "replaceSpaces x (c # cs) =
     (if isSpace c then x # replaceSpaces x (dropWhile isSpace cs)
      else c # replaceSpaces x cs)"
  by pat_completeness auto
termination
  by (relation "measure (\<lambda>(x, s). length s)")
     (auto simp: length_dropWhile_le less_Suc_eq_le)

text \<open>\<open>s.replace(/[(),:]/g, '')\<close>.\<close>

definition removePunctuation :: "string \<Rightarrow> string" where
  "removePunctuation s = filter (\<lambda>c. c \<notin> set ''(),:'') s"

definition preprocessIngredientName :: "string \<Rightarrow> string" where
  "preprocessIngredientName rawName =
     (if rawName = [] then []
      else
        (let c0 = trim (toLowerCase rawName);
             c1 = trim (removeQuantity c0);
             c2 = foldl (\<lambda>cleaned w. removeWord w True cleaned) c1 wordsToRemove;
             c3 = removePunctuation c2;
             c4 = trim (replaceSpaces (CHR '' '') c3)
         in if c4 = ''ginger-garlic'' then ''ginger-garlic paste''
            else if c4 \<noteq> [] then c4 else trim (toLowerCase rawName)))"

subsection \<open>Lookups in the nutrition database\<close>

definition findInNutritionDB :: "nutritionRow list \<Rightarrow> string \<Rightarrow> nutritionRow option" where
  "findInNutritionDB db ingredientName =
     (if db = [] then None else find (\<lambda>item. ingredient item = ingredientName) db)"

definition findAllInNutritionDB :: "nutritionRow list \<Rightarrow> string \<Rightarrow> nutritionRow list" where
  "findAllInNutritionDB db ingredientName =
     (if db = [] \<or> ingredientName = [] then []
      else
        (let searchTerm = toLowerCase ingredientName;
             searchTermUnderscore = replaceSpaces (CHR ''_'') searchTerm
         in filter (\<lambda>item. includes_js (ingredient item) searchTerm
                           \<or> includes_js (ingredient item) searchTermUnderscore) db))"

text \<open>
  \<open>getAiAssistedMatch\<close>. The text model is a collaborator outside the sources: \<open>ai\<close>
  gives the text it generates for the prompt built from a name, \<open>None\<close> when there is no
  model or the call fails (the failure is caught and logged). The answer counts only
  when, trimmed, it is a name of the database other than \<open>None\<close>.
\<close>

definition getAiAssistedMatch ::
  "nutritionRow list \<Rightarrow> (string \<Rightarrow> string option) \<Rightarrow> string \<Rightarrow> string option" where
  "getAiAssistedMatch db ai originalIngredientName =
     (if originalIngredientName = [] \<or> db = [] then None
      else
        (case ai originalIngredientName of
           None \<Rightarrow> None
         | Some text \<Rightarrow>
             (let bestMatch = trim text
              in if bestMatch \<noteq> [] \<and> bestMatch \<noteq> ''None''
                    \<and> bestMatch \<in> set (map ingredient db)
                 then Some bestMatch else None)))"

text \<open>\<open>s.replace(/s$/, '')\<close> and \<open>s.replace(/_s$/, '')\<close>.\<close>

definition dropFinalS :: "string \<Rightarrow> string" where
  "dropFinalS s = (if s \<noteq> [] \<and> last s = CHR ''s'' then butlast s else s)"

definition dropFinalUnderscoreS :: "string \<Rightarrow> string" where
  "dropFinalUnderscoreS s =
     (if 2 \<le> length s \<and> last s = CHR ''s'' \<and> last (butlast s) = CHR ''_''
      then butlast (butlast s) else s)"

subsection \<open>standardizeIngredientName and getNutritionData\<close>

text \<open>
  The synonym table is a map from phrases to names. The sort of the candidates by the
  length of their names is stable.
\<close>

definition standardizeIngredientName ::
  "nutritionRow list \<Rightarrow> (string \<rightharpoonup> string) \<Rightarrow> (string \<Rightarrow> string option) \<Rightarrow> string
     \<Rightarrow> string option" where
  "standardizeIngredientName db synonyms ai ingredientName =
     (if ingredientName = [] then None
      else
        (let normalized = trim (preprocessIngredientName ingredientName);
             normalizedWithUnderscores = replaceSpaces (CHR ''_'') normalized;
             synonymTarget = (case synonyms normalized of
                                None \<Rightarrow> None
                              | Some t \<Rightarrow> if t = [] then None else Some t);
             potentialMatches = findAllInNutritionDB db normalized;
             exactMatch = find (\<lambda>item. ingredient item = normalized
                                    \<or> ingredient item = normalizedWithUnderscores)
                               potentialMatches;
             baseMatch = find (\<lambda>item. ingredient item = dropFinalS normalized
                                   \<or> ingredient item
                                       = dropFinalUnderscoreS normalizedWithUnderscores)
                              potentialMatches
         in if normalized = [] then None
            else if findInNutritionDB db normalizedWithUnderscores \<noteq> None
            then Some normalizedWithUnderscores
            else if findInNutritionDB db normalized \<noteq> None then Some normalized
            else if synonymTarget \<noteq> None \<and> findInNutritionDB db (the synonymTarget) \<noteq> None
            then synonymTarget
            else if potentialMatches \<noteq> [] then
              (case exactMatch of
                 Some item \<Rightarrow> Some (ingredient item)
               | None \<Rightarrow>
                   (case baseMatch of
                      Some item \<Rightarrow> Some (ingredient item)
                    | None \<Rightarrow>
                        Some (ingredient
                               (hd (sort_key (\<lambda>item. length (ingredient item))
                                      potentialMatches)))))
            else getAiAssistedMatch db ai ingredientName))"

definition getNutritionData ::
  "nutritionRow list \<Rightarrow> (string \<rightharpoonup> string) \<Rightarrow> (string \<Rightarrow> string option) \<Rightarrow> string
     \<Rightarrow> nutritionRow option" where
  "getNutritionData db synonyms ai ingredientName =
     (case standardizeIngredientName db synonyms ai ingredientName of
        None \<Rightarrow> None
      | Some standardName \<Rightarrow> findInNutritionDB db standardName)"

subsection \<open>The names the preparation script writes\<close>

text \<open>
  \<open>scripts/processNutritionData.js\<close> writes the column \<open>ingredient\<close> as
  \<open>food_name.toLowerCase().replace(/[^\w\s]/g, '').replace(/\s+/g, '_').trim()\<close>.
\<close>

definition cleanFoodName :: "string \<Rightarrow> string" where
  "cleanFoodName foodName =
     trim (replaceSpaces (CHR ''_'')
             (filter (\<lambda>c. isWordChar c \<or> isSpace c) (toLowerCase foodName)))"

text \<open>A lower-case letter, a digit or the underscore.\<close>

definition isNameChar :: "char \<Rightarrow> bool" where
  "isNameChar c = (c \<in> set ''abcdefghijklmnopqrstuvwxyz0123456789_'')"

section \<open>NutritionCalculator.calculateNutrition\<close>

text \<open>
  An element of the ingredient list is an object with the properties \<open>name\<close>,
  \<open>standardQuantity\<close> and \<open>quantity\<close>, each of any value.
\<close>

record recipeIngredient =
  name :: jsval
  standardQuantity :: jsval
  quantity :: jsval

fun truthyVal :: "jsval \<Rightarrow> bool" where
  "truthyVal Undefined = False"
| "truthyVal Null = False"
| "truthyVal (Boolean b) = b"
| "truthyVal (Number n) = truthy n"
| "truthyVal (String s) = (s \<noteq> [])"
| "truthyVal Object = True"

text \<open>\<open>ingredient.standardQuantity || ingredient.quantity\<close>.\<close>

definition quantityOf :: "recipeIngredient \<Rightarrow> jsval" where
  "quantityOf i = (if truthyVal (standardQuantity i) then standardQuantity i else quantity i)"

record processedIngredient =
  ingredient_p :: jsval
  mappedName :: "string option"
  quantity_p :: jsval
  weight_g :: jsnum
  nutrition_p :: "nutrition option"
  error_p :: "string option"

record nutritionResult =
  totalNutrition :: nutrition
  processedIngredients :: "processedIngredient list"
  totalWeightInGrams :: jsnum

text \<open>\<open>parseFloat(field || 0)\<close> on a column of a row.\<close>

definition perHundred :: "string \<Rightarrow> jsnum" where
  "perHundred field = (if field = [] then Fin 0 else parseFloat field)"

text \<open>\<open>(parseFloat(field || 0) * quantityInGrams) / 100\<close>, then the guard against NaN.\<close>

definition scaleField :: "string \<Rightarrow> jsnum \<Rightarrow> jsnum" where
  "scaleField field quantityInGrams =
     nanToZero (jdiv (jmul (perHundred field) quantityInGrams) (Fin 100))"

text \<open>
  The mapper is handed to the calculator by its constructor: \<open>mapper n\<close> is the outcome of
  \<open>await this.ingredientMapper.getNutritionData(n)\<close>, \<open>Inl msg\<close> when the promise rejects
  with an error of message \<open>msg\<close>, \<open>Inr None\<close> when it resolves to \<open>null\<close>.

  The body of the \<open>try\<close> block: \<open>Inl msg\<close> when it throws, otherwise the values of
  \<open>mappedName\<close>, \<open>quantityInGrams\<close> and \<open>ingredientNutrition\<close> at its end. Calling
  \<open>toLowerCase\<close> on a name that is not a string throws a TypeError. A throw happens
  before any of the three variables is assigned.
\<close>

definition tryBlock ::
  "(string \<Rightarrow> string + nutritionRow option) \<Rightarrow> householdMeasurements \<Rightarrow> recipeIngredient
     \<Rightarrow> string + (string option \<times> jsnum \<times> nutrition option)" where
  "tryBlock mapper hm i =
     (case name i of
        String nm \<Rightarrow>
          (let ingredientName = trim (toLowerCase nm)
           in case mapper ingredientName of
                Inl msg \<Rightarrow> Inl msg
              | Inr None \<Rightarrow> Inr (None, Fin 0, None)
              | Inr (Some nutritionData) \<Rightarrow>
                  (let mapped = ingredient nutritionData;
                       quantityInGrams = standardizeToGrams hm (quantityOf i) mapped
                   in Inr (Some mapped, quantityInGrams,
                           Some \<lparr> calories = scaleField (calories_per_100g nutritionData)
                                               quantityInGrams,
                                  protein = scaleField (protein_per_100g nutritionData)
                                              quantityInGrams,
                                  carbs = scaleField (carbs_per_100g nutritionData)
                                            quantityInGrams,
                                  fat = scaleField (fat_per_100g nutritionData)
                                          quantityInGrams,
                                  fiber = scaleField (fiber_per_100g nutritionData)
                                            quantityInGrams \<rparr>)))
      | _ \<Rightarrow> Inl ''TypeError'')"

text \<open>
  One callback of \<open>ingredients.map\<close>: the \<open>try\<close> block, the \<open>catch\<close> that keeps the
  message, and the entry pushed to \<open>processedIngredients\<close>.
\<close>

definition processIngredient ::
  "(string \<Rightarrow> string + nutritionRow option) \<Rightarrow> householdMeasurements \<Rightarrow> recipeIngredient
     \<Rightarrow> processedIngredient" where
  "processIngredient mapper hm i =
     (case tryBlock mapper hm i of
        Inl msg \<Rightarrow>
          \<lparr> ingredient_p = name i, mappedName = None, quantity_p = quantityOf i,
            weight_g = Fin 0, nutrition_p = None, error_p = Some msg \<rparr>
      | Inr (mapped, quantityInGrams, ingredientNutrition) \<Rightarrow>
          \<lparr> ingredient_p = name i, mappedName = mapped, quantity_p = quantityOf i,
            weight_g = quantityInGrams, nutrition_p = ingredientNutrition,
            error_p = None \<rparr>)"

text \<open>
  The promise of a callback: it is fulfilled with the entry it pushed, since everything
  that can throw is inside its \<open>try\<close>. \<open>Promise.all\<close> rejects with the first rejection
  and is fulfilled when every promise is.
\<close>

definition callback ::
  "(string \<Rightarrow> string + nutritionRow option) \<Rightarrow> householdMeasurements \<Rightarrow> recipeIngredient
     \<Rightarrow> string + processedIngredient" where
  "callback mapper hm i = Inr (processIngredient mapper hm i)"

fun promiseAll :: "(string + 'a) list \<Rightarrow> string + 'a list" where
  "promiseAll [] = Inr []"
| "promiseAll (Inl e # ps) = Inl e"
| "promiseAll (Inr x # ps) = (case promiseAll ps of Inl e \<Rightarrow> Inl e | Inr xs \<Rightarrow> Inr (x # xs))"

text \<open>
  One step of the \<open>forEach\<close> that adds an entry to the totals and to the total weight.
\<close>

definition addEntry :: "nutrition \<times> jsnum \<Rightarrow> processedIngredient \<Rightarrow> nutrition \<times> jsnum" where
  "addEntry acc procIngredient =
     (case nutrition_p procIngredient of
        None \<Rightarrow> acc
      | Some n \<Rightarrow>
          (\<lparr> calories = jadd (calories (fst acc)) (calories n),
             protein = jadd (protein (fst acc)) (protein n),
             carbs = jadd (carbs (fst acc)) (carbs n),
             fat = jadd (fat (fst acc)) (fat n),
             fiber = jadd (fiber (fst acc)) (fiber n) \<rparr>,
           jadd (snd acc) (weight_g procIngredient)))"

definition zeroNutrition :: nutrition where
  "zeroNutrition =
     \<lparr> calories = Fin 0, protein = Fin 0, carbs = Fin 0, fat = Fin 0, fiber = Fin 0 \<rparr>"

text \<open>The aggregation over the entries, then the guard of the totals against NaN.\<close>

definition aggregate :: "processedIngredient list \<Rightarrow> nutritionResult" where
  "aggregate ps =
     (let acc = foldl addEntry (zeroNutrition, Fin 0) ps
      in \<lparr> totalNutrition =
             \<lparr> calories = nanToZero (calories (fst acc)),
               protein = nanToZero (protein (fst acc)),
               carbs = nanToZero (carbs (fst acc)),
               fat = nanToZero (fat (fst acc)),
               fiber = nanToZero (fiber (fst acc)) \<rparr>,
           processedIngredients = ps,
           totalWeightInGrams = snd acc \<rparr>)"

text \<open>
  \<open>calculateNutrition\<close>: \<open>Inl msg\<close> when the returned promise rejects. The entries are
  listed in the order of the ingredient list; the source pushes each entry when its
  callback completes, which is that order when no lookup waits on the text model.
\<close>

definition calculateNutrition ::
  "(string \<Rightarrow> string + nutritionRow option) \<Rightarrow> householdMeasurements
     \<Rightarrow> recipeIngredient list \<Rightarrow> string + nutritionResult" where
  "calculateNutrition mapper hm ings =
     (case promiseAll (map (callback mapper hm) ings) of
        Inl e \<Rightarrow> Inl e
      | Inr ps \<Rightarrow> Inr (aggregate ps))"

text \<open>The mapper of the program: an \<open>IngredientMapper\<close> on a database, whose lookups do not throw.\<close>

definition ingredientMapper ::
  "nutritionRow list \<Rightarrow> (string \<rightharpoonup> string) \<Rightarrow> (string \<Rightarrow> string option) \<Rightarrow> string
     \<Rightarrow> string + nutritionRow option" where
  "ingredientMapper db synonyms ai n = Inr (getNutritionData db synonyms ai n)"

section \<open>Sums as the specification words them\<close>

text \<open>The sum of a list of numbers, added to 0 one after the other from the left.\<close>

definition sum_js :: "jsnum list \<Rightarrow> jsnum" where
  "sum_js xs = foldl jadd (Fin 0) xs"

text \<open>The entries whose nutrition is not null, and their nutrition.\<close>

definition resolved :: "processedIngredient list \<Rightarrow> processedIngredient list" where
  "resolved ps = filter (\<lambda>p. nutrition_p p \<noteq> None) ps"

definition nutritionOf :: "processedIngredient list \<Rightarrow> nutrition list" where
  "nutritionOf ps = map (\<lambda>p. the (nutrition_p p)) (resolved ps)"

section \<open>The ratio as the specification words it\<close>

text \<open>\<open>Math.max\<close> on two numbers: NaN as soon as one argument is NaN.\<close>

definition max_js :: "jsnum \<Rightarrow> jsnum \<Rightarrow> jsnum" where
  "max_js x y = (if isNaN x \<or> isNaN y then NaN else if jlt x y then y else x)"

text \<open>
  The specification's ratio, \<open>targetServingGrams / max(totals.totalWeightGrams, 1)\<close>,
  written from its words to be compared with \<open>servingRatio\<close>.
\<close>

definition specRatio :: "jsnum \<Rightarrow> jsnum \<Rightarrow> jsnum" where
  "specRatio targetServingGrams totalWeightGrams =
     jdiv targetServingGrams (max_js totalWeightGrams (Fin 1))"

section \<open>Numbers that are not negative\<close>



section \<open>A table for concrete evaluations\<close>

definition exampleTable :: householdMeasurements where
  "exampleTable =
     \<lparr> foodTypes = [''Dal'' \<mapsto> Fin 150],
       measurements =
         [''cup'' \<mapsto> UnitObject [''default'' \<mapsto> Fin 150, ''rice'' \<mapsto> Fin 200],
          ''katori'' \<mapsto> UnitNumber (Fin 150)],
       ingredients = [''spinach'' \<mapsto> ''leafy_green''],
       ingredientCategories = [''leafy_green'' \<mapsto> [''cup'' \<mapsto> Fin 30]] \<rparr>"

definition exampleRow :: "string \<Rightarrow> string \<Rightarrow> nutritionRow" where
  "exampleRow n kcal =
     \<lparr> ingredient = n, calories_per_100g = kcal, protein_per_100g = ''2'',
       carbs_per_100g = ''9'', fat_per_100g = ''0.1'', fiber_per_100g = [] \<rparr>"

definition exampleIngredient :: "string \<Rightarrow> string \<Rightarrow> recipeIngredient" where
  "exampleIngredient n q = \<lparr> name = String n, standardQuantity = Undefined, quantity = String q \<rparr>"

definition noModel :: "string \<Rightarrow> string option" where
  "noModel originalIngredientName = None"

definition exampleDb :: "nutritionRow list" where
  "exampleDb =
     [exampleRow ''onion'' ''40'', exampleRow ''fresh cream'' ''300'',
      exampleRow ''cream'' ''340'']"

text \<open>A database with corrupt columns: infinite and negative calories.\<close>

definition corruptDb :: "nutritionRow list" where
  "corruptDb =
     [exampleRow ''onion'' ''40'', exampleRow ''syrup'' ''Infinity'',
      exampleRow ''ice'' ''-Infinity'', exampleRow ''filler'' ''-5'']"

text \<open>A mapper whose lookup of one name rejects.\<close>

definition failingMapper :: "string \<Rightarrow> string + nutritionRow option" where
  "failingMapper n =
     (if n = ''salt'' then Inl ''socket hang up''
      else ingredientMapper exampleDb Map.empty noModel n)"

section \<open>Helper facts on numbers\<close>

lemma orElse_zero_not_NaN: "\<not> isNaN (orElse x (Fin 0))"
  by (cases x) (simp_all add: orElse_def)

lemma nanToZero_orElse_zero: "nanToZero (orElse x (Fin 0)) = orElse x (Fin 0)"
  using orElse_zero_not_NaN [of x] by (simp add: nanToZero_def)

lemma orElse_one_cases:
  "orElse w (Fin 1) = (if w = Fin 0 \<or> w = NaN then Fin 1 else w)"
  by (cases w) (simp_all add: orElse_def)

section \<open>Helper facts on strings\<close>










section \<open>Decimal numerals followed by g\<close>





section \<open>The gram weight is never negative\<close>










lemma set_trim: "set (trim s) \<subseteq> set s"
proof -
  have "set (dropWhile isSpace (rev (dropWhile isSpace s))) \<subseteq> set (rev (dropWhile isSpace s))"
    by (auto dest: set_dropWhileD)
  also have "\<dots> \<subseteq> set s" by (auto dest: set_dropWhileD)
  finally show ?thesis by (simp add: trim_def)
qed






















section \<open>The entries and the totals of calculateNutrition\<close>

lemma promiseAll_callbacks:
  "promiseAll (map (callback mapper hm) ings) = Inr (map (processIngredient mapper hm) ings)"
  by (induction ings) (simp_all add: callback_def)

lemma calculateNutrition_eq:
  "calculateNutrition mapper hm ings = Inr (aggregate (map (processIngredient mapper hm) ings))"
  by (simp add: calculateNutrition_def promiseAll_callbacks)


lemma processIngredient_returned:
  "tryBlock mapper hm i = Inr (m, w, n) \<Longrightarrow>
     error_p (processIngredient mapper hm i) = None
     \<and> nutrition_p (processIngredient mapper hm i) = n
     \<and> weight_g (processIngredient mapper hm i) = w"
  by (simp add: processIngredient_def)

lemma tryBlock_cases:
  "tryBlock mapper hm i =
     (case name i of
        String nm \<Rightarrow>
          (case mapper (trim (toLowerCase nm)) of
             Inl msg \<Rightarrow> Inl msg
           | Inr None \<Rightarrow> Inr (None, Fin 0, None)
           | Inr (Some row) \<Rightarrow>
               Inr (Some (ingredient row), standardizeToGrams hm (quantityOf i) (ingredient row),
                 Some \<lparr> calories = scaleField (calories_per_100g row)
                                     (standardizeToGrams hm (quantityOf i) (ingredient row)),
                        protein = scaleField (protein_per_100g row)
                                    (standardizeToGrams hm (quantityOf i) (ingredient row)),
                        carbs = scaleField (carbs_per_100g row)
                                  (standardizeToGrams hm (quantityOf i) (ingredient row)),
                        fat = scaleField (fat_per_100g row)
                                (standardizeToGrams hm (quantityOf i) (ingredient row)),
                        fiber = scaleField (fiber_per_100g row)
                                  (standardizeToGrams hm (quantityOf i) (ingredient row)) \<rparr>))
      | _ \<Rightarrow> Inl ''TypeError'')"
  by (simp add: tryBlock_def Let_def split: jsval.splits sum.splits option.splits)

lemma nutrition_iff_resolved:
  "nutrition_p (processIngredient mapper hm i) \<noteq> None \<longleftrightarrow>
     (\<exists>nm row. name i = String nm \<and> mapper (trim (toLowerCase nm)) = Inr (Some row))"
  by (auto simp: processIngredient_def tryBlock_cases split: jsval.splits sum.splits option.splits)

lemma error_iff_threw:
  "error_p (processIngredient mapper hm i) \<noteq> None \<longleftrightarrow> (\<exists>msg. tryBlock mapper hm i = Inl msg)"
  by (cases "tryBlock mapper hm i") (auto simp: processIngredient_def)

lemma not_both:
  "\<not> (nutrition_p (processIngredient mapper hm i) \<noteq> None
      \<and> error_p (processIngredient mapper hm i) \<noteq> None)"
  by (cases "tryBlock mapper hm i") (auto simp: processIngredient_def)

lemma null_resolution:
  "name i = String nm \<Longrightarrow> mapper (trim (toLowerCase nm)) = Inr None \<Longrightarrow>
     nutrition_p (processIngredient mapper hm i) = None
     \<and> error_p (processIngredient mapper hm i) = None"
  by (simp add: processIngredient_def tryBlock_cases)





lemma nutritionOf_Cons:
  "nutritionOf (p # ps) =
     (case nutrition_p p of None \<Rightarrow> nutritionOf ps | Some n \<Rightarrow> n # nutritionOf ps)"
  by (simp add: nutritionOf_def resolved_def split: option.splits)

lemma resolved_Cons:
  "resolved (p # ps) = (if nutrition_p p = None then resolved ps else p # resolved ps)"
  by (simp add: resolved_def)

lemma foldl_addEntry:
  "foldl addEntry acc ps =
     (\<lparr> calories = foldl jadd (calories (fst acc)) (map calories (nutritionOf ps)),
        protein = foldl jadd (protein (fst acc)) (map protein (nutritionOf ps)),
        carbs = foldl jadd (carbs (fst acc)) (map carbs (nutritionOf ps)),
        fat = foldl jadd (fat (fst acc)) (map fat (nutritionOf ps)),
        fiber = foldl jadd (fiber (fst acc)) (map fiber (nutritionOf ps)) \<rparr>,
      foldl jadd (snd acc) (map weight_g (resolved ps)))"
proof (induction ps arbitrary: acc)
  case Nil
  then show ?case
    by (cases acc) (simp add: nutritionOf_def resolved_def)
next
  case (Cons p ps)
  show ?case
  proof (cases "nutrition_p p")
    case None
    then have "addEntry acc p = acc" by (simp add: addEntry_def)
    then show ?thesis using None
      by (simp add: Cons.IH nutritionOf_Cons resolved_Cons)
  next
    case (Some n)
    then have "addEntry acc p =
        (\<lparr> calories = jadd (calories (fst acc)) (calories n),
           protein = jadd (protein (fst acc)) (protein n),
           carbs = jadd (carbs (fst acc)) (carbs n),
           fat = jadd (fat (fst acc)) (fat n),
           fiber = jadd (fiber (fst acc)) (fiber n) \<rparr>,
         jadd (snd acc) (weight_g p))"
      by (simp add: addEntry_def)
    then show ?thesis using Some
      by (simp add: Cons.IH nutritionOf_Cons resolved_Cons)
  qed
qed

lemma aggregate_sums:
  "totalNutrition (aggregate ps) =
     \<lparr> calories = nanToZero (sum_js (map calories (nutritionOf ps))),
       protein = nanToZero (sum_js (map protein (nutritionOf ps))),
       carbs = nanToZero (sum_js (map carbs (nutritionOf ps))),
       fat = nanToZero (sum_js (map fat (nutritionOf ps))),
       fiber = nanToZero (sum_js (map fiber (nutritionOf ps))) \<rparr>
   \<and> totalWeightInGrams (aggregate ps) = sum_js (map weight_g (resolved ps))
   \<and> processedIngredients (aggregate ps) = ps"
  by (simp add: aggregate_def Let_def foldl_addEntry zeroNutrition_def sum_js_def)

lemma unresolved_contributes_nothing:
  "nutrition_p p = None \<Longrightarrow>
     totalNutrition (aggregate (ps @ p # qs)) = totalNutrition (aggregate (ps @ qs))
     \<and> totalWeightInGrams (aggregate (ps @ p # qs)) = totalWeightInGrams (aggregate (ps @ qs))"
  by (simp add: aggregate_sums nutritionOf_def resolved_def)

section \<open>Names of lower-case letters, digits and underscores\<close>

lemma nameChar_facts:
  assumes "isNameChar ch"
  shows "lowerChar ch = ch" and "isWordChar ch" and "\<not> isSpace ch"
    and "ch \<notin> set ''(),:''" and "ch \<noteq> CHR ''-''"
  using assms
  by (auto simp: isNameChar_def lowerChar_def isWordChar_def isLetter_def isDigit_def
      isSpace_def)

lemma toLowerCase_name: "\<forall>ch\<in>set c. isNameChar ch \<Longrightarrow> toLowerCase c = c"
  unfolding toLowerCase_def by (rule map_idI) (simp add: nameChar_facts)

lemma trim_no_space: "\<forall>ch\<in>set s. \<not> isSpace ch \<Longrightarrow> trim s = s"
proof -
  assume a: "\<forall>ch\<in>set s. \<not> isSpace ch"
  have d: "dropWhile isSpace t = t" if "\<forall>ch\<in>set t. \<not> isSpace ch" for t
    using that by (cases t) auto
  show ?thesis using a by (simp add: trim_def d)
qed

lemma replaceSpaces_no_space: "\<forall>ch\<in>set s. \<not> isSpace ch \<Longrightarrow> replaceSpaces x s = s"
  by (induction s) auto

lemma cutQuantityAtEnd_inside: "\<forall>ch\<in>set s. isWordChar ch \<Longrightarrow> cutQuantityAtEnd False s = s"
  by (induction s) auto

lemma cutQuantityAtEnd_word:
  "\<forall>ch\<in>set s. isWordChar ch \<Longrightarrow> cutQuantityAtEnd True s = s \<or> cutQuantityAtEnd True s = []"
  by (cases s) (auto simp: cutQuantityAtEnd_inside)

lemma unitTail_Some: "unitTail ok us r = Some t \<Longrightarrow> ok t \<and> suffix t r"
proof (induction us)
  case Nil
  then show ?case by simp
next
  case (Cons u us)
  have s1: "suffix (drop (length u) r) r" by (rule suffix_drop)
  have s2: "suffix (tl (drop (length u) r)) r"
    by (metis drop_Suc suffix_drop tl_drop)
  show ?case using Cons s1 s2
    by (auto simp: Let_def split: if_splits)
qed

lemma numberAt_suffix: "numberAt s = Some (num, r) \<Longrightarrow> suffix r s"
proof -
  assume a: "numberAt s = Some (num, r)"
  have 1: "suffix (dropWhile isDigit s) s" by (rule suffix_dropWhile)
  from a have "r = dropWhile isDigit s
      \<or> (\<exists>c r'. dropWhile isDigit s = c # r' \<and> r = dropWhile isDigit r')"
    by (auto simp: numberAt_def Let_def split: if_splits list.splits)
  then show ?thesis
  proof
    assume "r = dropWhile isDigit s"
    then show ?thesis using 1 by simp
  next
    assume "\<exists>c r'. dropWhile isDigit s = c # r' \<and> r = dropWhile isDigit r'"
    then obtain c r' where d: "dropWhile isDigit s = c # r'" and r: "r = dropWhile isDigit r'"
      by blast
    have "suffix r r'" unfolding r by (rule suffix_dropWhile)
    moreover have "suffix r' (c # r')" by (simp add: suffix_ConsI)
    moreover have "suffix (c # r') s" using 1 d by simp
    ultimately show ?thesis by (meson suffix_order.trans)
  qed
qed

lemma quantityPrefix_suffix: "quantityPrefix s = Some r \<Longrightarrow> suffix r s"
proof -
  assume a: "quantityPrefix s = Some r"
  then obtain num r0 where n: "numberAt s = Some (num, r0)"
    by (auto simp: quantityPrefix_def split: option.splits)
  define r1 where "r1 = dropWhile isSpace r0"
  define r2 where "r2 = (if r1 \<noteq> [] \<and> hd r1 = CHR ''/'' then tl r1 else r1)"
  have "quantityPrefix s = Some (dropWhile isSpace (dropWhile isDigit r2))"
    unfolding quantityPrefix_def n r2_def r1_def Let_def by simp
  then have r: "r = dropWhile isSpace (dropWhile isDigit r2)"
    using a by simp
  have "suffix r0 s" using n by (rule numberAt_suffix)
  moreover have "suffix r1 r0" unfolding r1_def by (rule suffix_dropWhile)
  moreover have "suffix r2 r1" unfolding r2_def by (cases r1) (auto simp: suffix_ConsI)
  moreover have "suffix (dropWhile isDigit r2) r2" by (rule suffix_dropWhile)
  moreover have "suffix r (dropWhile isDigit r2)" unfolding r by (rule suffix_dropWhile)
  ultimately show ?thesis by (meson suffix_order.trans)
qed

lemma quantityAtStart_word:
  assumes "\<forall>ch\<in>set s. isWordChar ch" and "quantityAtStart s = Some t"
  shows "t = []"
proof -
  obtain r where p: "quantityPrefix s = Some r" and u: "unitTail boundaryAfter quantityUnits r = Some t"
    using assms(2) by (auto simp: quantityAtStart_def split: option.splits)
  have b: "boundaryAfter t" and "suffix t r" using unitTail_Some [OF u] by simp_all
  then have "suffix t s" using quantityPrefix_suffix [OF p] by (meson suffix_order.trans)
  then have "set t \<subseteq> set s" by (rule set_mono_suffix)
  then have "\<forall>ch\<in>set t. isWordChar ch" using assms(1) by blast
  then show ?thesis using b by (cases t) (auto simp: boundaryAfter_def)
qed

lemma removeQuantity_word:
  assumes "\<forall>ch\<in>set s. isWordChar ch"
  shows "removeQuantity s = s \<or> removeQuantity s = []"
proof (cases "quantityAtStart s")
  case None
  then show ?thesis using cutQuantityAtEnd_word [OF assms] by (simp add: removeQuantity_def)
next
  case (Some t)
  then show ?thesis using quantityAtStart_word [OF assms Some] by (simp add: removeQuantity_def)
qed

lemma removeWord_inside: "\<forall>ch\<in>set s. isWordChar ch \<Longrightarrow> removeWord w False s = s"
  by (induction s) auto

lemma removeWord_word:
  assumes "\<forall>ch\<in>set s. isWordChar ch"
  shows "removeWord w True s = s \<or> removeWord w True s = []"
proof (cases s)
  case Nil
  then show ?thesis by simp
next
  case (Cons c cs)
  show ?thesis
  proof (cases "w \<noteq> [] \<and> startsWith (toLowerCase (c # cs)) w
                  \<and> boundaryAfter (drop (length w) (c # cs))")
    case True
    have "set (drop (length w) (c # cs)) \<subseteq> set (c # cs)" by (rule set_drop_subset)
    then have "set (drop (length w) (c # cs)) \<subseteq> set s" using Cons by simp
    then have "\<forall>ch\<in>set (drop (length w) (c # cs)). isWordChar ch" using assms by blast
    then have "drop (length w) (c # cs) = []"
      using True by (cases "drop (length w) (c # cs)") (auto simp: boundaryAfter_def)
    then show ?thesis using True Cons by simp
  next
    case False
    then have "removeWord w True (c # cs) = c # removeWord w (\<not> isWordChar c) cs"
      by auto
    then show ?thesis using Cons assms removeWord_inside [of cs w] by simp
  qed
qed

lemma removeWords_word:
  assumes "\<forall>ch\<in>set s. isWordChar ch"
  shows "x = s \<or> x = [] \<Longrightarrow>
           foldl (\<lambda>cleaned w. removeWord w True cleaned) x ws = s
           \<or> foldl (\<lambda>cleaned w. removeWord w True cleaned) x ws = []"
proof (induction ws arbitrary: x)
  case Nil
  then show ?case by simp
next
  case (Cons w ws)
  have "removeWord w True x = s \<or> removeWord w True x = []"
    using Cons.prems removeWord_word [OF assms, of w] by auto
  then show ?case using Cons.IH by simp
qed

lemma preprocess_name:
  assumes "c \<noteq> []" and "\<forall>ch\<in>set c. isNameChar ch"
  shows "preprocessIngredientName c = c"
proof -
  have w: "\<forall>ch\<in>set c. isWordChar ch" and ns: "\<forall>ch\<in>set c. \<not> isSpace ch"
    and np: "\<forall>ch\<in>set c. ch \<notin> set ''(),:''" and nh: "CHR ''-'' \<notin> set c"
    using assms(2) nameChar_facts by blast+
  have c0: "trim (toLowerCase c) = c"
    using toLowerCase_name [OF assms(2)] trim_no_space [OF ns] by simp
  have t0: "trim [] = []" by (simp add: trim_def)
  have c1: "trim (removeQuantity c) = c \<or> trim (removeQuantity c) = []"
    using removeQuantity_word [OF w] trim_no_space [OF ns] t0 by auto
  define c2 where "c2 = foldl (\<lambda>cleaned w. removeWord w True cleaned) (trim (removeQuantity c)) wordsToRemove"
  have c2: "c2 = c \<or> c2 = []"
    unfolding c2_def using c1 by (rule removeWords_word [OF w])
  define c4 where "c4 = trim (replaceSpaces (CHR '' '') (removePunctuation c2))"
  have f: "removePunctuation c = c"
    unfolding removePunctuation_def using np by (simp add: filter_id_conv)
  have f0: "removePunctuation [] = []" by (simp add: removePunctuation_def)
  have c4: "c4 = c \<or> c4 = []"
    using c2 unfolding c4_def
    by (auto simp: f f0 replaceSpaces_no_space [OF ns] trim_no_space [OF ns] t0)
  have g: "c4 \<noteq> ''ginger-garlic''"
    using c4 nh by auto
  have "preprocessIngredientName c =
          (if c4 = ''ginger-garlic'' then ''ginger-garlic paste''
           else if c4 \<noteq> [] then c4 else trim (toLowerCase c))"
    using assms(1) by (simp add: preprocessIngredientName_def Let_def c0 c2_def c4_def)
  then show ?thesis using g c4 c0 by auto
qed

lemma findInNutritionDB_present:
  assumes "row \<in> set db"
  shows "findInNutritionDB db (ingredient row) \<noteq> None"
proof -
  have "db \<noteq> []" using assms by auto
  moreover have "find (\<lambda>item. ingredient item = ingredient row) db \<noteq> None"
    using assms unfolding find_None_iff by blast
  ultimately show ?thesis by (simp add: findInNutritionDB_def)
qed

lemma standardizeIngredientName_nameChars:
  assumes "c \<noteq> []" and "\<forall>ch\<in>set c. isNameChar ch"
    and "row \<in> set db" and "ingredient row = c"
  shows "standardizeIngredientName db synonyms ai c = Some c"
proof -
  have ns: "\<forall>ch\<in>set c. \<not> isSpace ch" using assms(2) nameChar_facts by blast
  have p: "trim (preprocessIngredientName c) = c"
    using preprocess_name [OF assms(1,2)] trim_no_space [OF ns] by simp
  have u: "replaceSpaces (CHR ''_'') c = c" by (rule replaceSpaces_no_space [OF ns])
  have f: "findInNutritionDB db c \<noteq> None"
    using findInNutritionDB_present [OF assms(3)] assms(4) by simp
  show ?thesis
    using assms(1) f by (simp add: standardizeIngredientName_def Let_def p u)
qed

lemma lowerChar_code:
  "(of_char (lowerChar d) :: nat) =
     (if (65 \<le> (of_char d :: nat) \<and> (of_char d :: nat) \<le> 90)
         \<or> (192 \<le> (of_char d :: nat) \<and> (of_char d :: nat) \<le> 222 \<and> (of_char d :: nat) \<noteq> 215)
      then of_char d + 32 else of_char d)"
  by (auto simp: lowerChar_def Let_def)

lemma capital_code:
  "c \<in> set ''ABCDEFGHIJKLMNOPQRSTUVWXYZ'' \<Longrightarrow> 65 \<le> (of_char c :: nat) \<and> (of_char c :: nat) \<le> 90"
  by auto

lemma lowerChar_not_capital: "lowerChar d \<notin> set ''ABCDEFGHIJKLMNOPQRSTUVWXYZ''"
proof
  assume "lowerChar d \<in> set ''ABCDEFGHIJKLMNOPQRSTUVWXYZ''"
  then have "65 \<le> (of_char (lowerChar d) :: nat) \<and> (of_char (lowerChar d) :: nat) \<le> 90"
    by (rule capital_code)
  then show False unfolding lowerChar_code by (auto split: if_splits)
qed

lemma word_not_capital:
  "isWordChar c \<Longrightarrow> c \<notin> set ''ABCDEFGHIJKLMNOPQRSTUVWXYZ'' \<Longrightarrow> isNameChar c"
  by (auto simp: isWordChar_def isLetter_def isDigit_def isNameChar_def)

lemma set_replaceSpaces:
  "set (replaceSpaces x s) \<subseteq> insert x {c \<in> set s. \<not> isSpace c}"
proof (induction x s rule: replaceSpaces.induct)
  case (1 x)
  then show ?case by simp
next
  case (2 x c cs)
  show ?case
  proof (cases "isSpace c")
    case True
    have "set (dropWhile isSpace cs) \<subseteq> set cs" by (auto dest: set_dropWhileD)
    then show ?thesis using True 2(1) by auto
  next
    case False
    then show ?thesis using 2(2) by auto
  qed
qed

lemma cleanFoodName_chars: "\<forall>ch\<in>set (cleanFoodName foodName). isNameChar ch"
proof
  fix ch
  assume "ch \<in> set (cleanFoodName foodName)"
  then have "ch \<in> set (replaceSpaces (CHR ''_'')
      (filter (\<lambda>c. isWordChar c \<or> isSpace c) (toLowerCase foodName)))"
    unfolding cleanFoodName_def using set_trim by blast
  then have "ch = CHR ''_'' \<or> (ch \<in> set (filter (\<lambda>c. isWordChar c \<or> isSpace c) (toLowerCase foodName)) \<and> \<not> isSpace ch)"
    using set_replaceSpaces by blast
  then show "isNameChar ch"
  proof
    assume "ch = CHR ''_''"
    then show ?thesis by (simp add: isNameChar_def)
  next
    assume a: "ch \<in> set (filter (\<lambda>c. isWordChar c \<or> isSpace c) (toLowerCase foodName)) \<and> \<not> isSpace ch"
    then have w: "isWordChar ch" by auto
    from a obtain d where "ch = lowerChar d" by (auto simp: toLowerCase_def)
    then have "ch \<notin> set ''ABCDEFGHIJKLMNOPQRSTUVWXYZ''" using lowerChar_not_capital by simp
    then show ?thesis using w by (rule word_not_capital [rotated])
  qed
qed

section \<open>Per-serving values\<close>

text \<open>
  C1. The claim: the per-serving computation clamps its output after scaling, calories
  above 1000 being reported as exactly 1000 and fat above 100 as 100. The code does not:
  from the totals of a dish of one kilogram with 9000 calories and 1000 g of fat,
  \<open>calculatePerServing\<close> reports 1350 calories and 150 g of fat for a serving of 150 g,
  for an unknown dish type as for a dish type of the table. The capping is written in
  \<open>validateNutritionValues\<close>, which would return 1000 and 100, and which no caller
  applies to the result.
\<close>

theorem calculatePerServing_reports_unclamped:
  "calories (calculatePerServing exampleTable
      \<lparr> calories = Fin 9000, protein = Fin 0, carbs = Fin 0, fat = Fin 1000,
        fiber = Fin 0 \<rparr> (Fin 1000) ''Unknown'') = Fin 1350
   \<and> fat (calculatePerServing exampleTable
      \<lparr> calories = Fin 9000, protein = Fin 0, carbs = Fin 0, fat = Fin 1000,
        fiber = Fin 0 \<rparr> (Fin 1000) ''Unknown'') = Fin 150
   \<and> calories (calculatePerServing exampleTable
      \<lparr> calories = Fin 9000, protein = Fin 0, carbs = Fin 0, fat = Fin 1000,
        fiber = Fin 0 \<rparr> (Fin 1000) ''Dal'') = Fin 1350
   \<and> calories (validateNutritionValues
      \<lparr> calories = Fin 1350, protein = Fin 0, carbs = Fin 0, fat = Fin 150,
        fiber = Fin 0 \<rparr>) = Fin 1000
   \<and> fat (validateNutritionValues
      \<lparr> calories = Fin 1350, protein = Fin 0, carbs = Fin 0, fat = Fin 150,
        fiber = Fin 0 \<rparr>) = Fin 100"
  by code_simp

text \<open>
  What \<open>validateNutritionValues\<close> does when it is applied: calories above 1000 become
  1000, protein above 100 becomes 100, carbs above 200 become 200, fat above 100 becomes
  100, and a negative field becomes 0.
\<close>

lemma validateNutritionValues_calories:
  "calories (validateNutritionValues n) =
     (if jgt (calories n) (Fin 1000) then Fin 1000 else floorZero (calories n))"
  by (simp add: validateNutritionValues_def Let_def floorZero_def jgt_def)

lemma validateNutritionValues_protein:
  "protein (validateNutritionValues n) =
     (if jgt (protein n) (Fin 100) then Fin 100 else floorZero (protein n))"
  by (simp add: validateNutritionValues_def Let_def)

lemma validateNutritionValues_carbs:
  "carbs (validateNutritionValues n) =
     (if jgt (carbs n) (Fin 200) then Fin 200 else floorZero (carbs n))"
  by (simp add: validateNutritionValues_def Let_def)

lemma validateNutritionValues_fat:
  "fat (validateNutritionValues n) =
     (if jgt (fat n) (Fin 100) then Fin 100 else floorZero (fat n))"
  by (simp add: validateNutritionValues_def Let_def)

lemma validateNutritionValues_fiber:
  "fiber (validateNutritionValues n) = floorZero (fiber n)"
  by (simp add: validateNutritionValues_def Let_def)

text \<open>
  C4, as the claim states it, fails: for a total weight of half a gram the code divides
  the serving size by one half, the specification's ratio divides it by 1.
\<close>

theorem servingRatio_half_gram_counterexample:
  "servingRatio (Fin 150) (Fin (1 / 2)) = Fin 300
   \<and> specRatio (Fin 150) (Fin (1 / 2)) = Fin 150
   \<and> calories (calculatePerServing
        \<lparr> foodTypes = Map.empty, measurements = Map.empty, ingredients = Map.empty,
          ingredientCategories = Map.empty \<rparr>
        \<lparr> calories = Fin 1, protein = Fin 0, carbs = Fin 0, fat = Fin 0, fiber = Fin 0 \<rparr>
        (Fin (1 / 2)) ''Unknown'') = Fin 300"
  by code_simp

text \<open>
  C4, amended. The ratio is the serving size divided by the total weight, and by 1 only
  when the total weight is 0 or NaN; a total weight strictly between 0 and 1 (or a
  negative one) is itself the divisor. The serving size is that of the dish type, 150
  when the table does not know the type, and every reported field is the total scaled
  by this ratio and rounded.
\<close>

theorem servingRatio_guards_zero_only:
  "servingRatio s w = jdiv s (if w = Fin 0 \<or> w = NaN then Fin 1 else w)
   \<and> calculatePerServing hm tot w d =
       (let s = (case foodTypes hm d of None \<Rightarrow> Fin 150 | Some s' \<Rightarrow> s');
            ratio = jdiv s (if w = Fin 0 \<or> w = NaN then Fin 1 else w)
        in \<lparr> calories = roundWhole (calories tot) ratio,
             protein = roundTenth (protein tot) ratio,
             carbs = roundTenth (carbs tot) ratio,
             fat = roundTenth (fat tot) ratio,
             fiber = roundTenth (fiber tot) ratio,
             serving_size_g = (if foodTypes hm d = None then s else nanToZero s) \<rparr>)"
proof -
  have r: "servingRatio s' w = jdiv s' (if w = Fin 0 \<or> w = NaN then Fin 1 else w)" for s'
    unfolding servingRatio_def orElse_one_cases ..
  have z1: "nanToZero (roundWhole x q) = roundWhole x q" for x q
    unfolding roundWhole_def by (rule nanToZero_orElse_zero)
  have z2: "nanToZero (roundTenth x q) = roundTenth x q" for x q
    unfolding roundTenth_def by (rule nanToZero_orElse_zero)
  show ?thesis
    by (cases "foodTypes hm d")
       (simp_all add: r z1 z2 calculatePerServing_def scaled_def Let_def)
qed

theorem servingRatio_guards_zero_only_witness:
  "servingRatio (Fin 150) (Fin (1 / 4)) = Fin 600
   \<and> servingRatio (Fin 150) (Fin 0) = Fin 150
   \<and> servingRatio (Fin 150) NaN = Fin 150"
  using servingRatio_guards_zero_only [of "Fin 150" "Fin (1 / 4)"]
        servingRatio_guards_zero_only [of "Fin 150" "Fin 0"]
        servingRatio_guards_zero_only [of "Fin 150" NaN]
  by simp

section \<open>Quantity phrases\<close>



text \<open>
  C10. For \<open>null\<close>, \<open>undefined\<close>, the empty string and every value that is not a string,
  \<open>parseQuantity\<close> returns the value 0 with the unit \<open>null\<close>.
\<close>

theorem parseQuantity_not_a_phrase:
  "(\<forall>s. q \<noteq> String s) \<or> q = String [] \<Longrightarrow>
     parseQuantity q = \<lparr> value_q = Fin 0, unit_q = None \<rparr>"
  by (cases q) (auto simp: parseQuantity_def)

theorem parseQuantity_not_a_phrase_witness:
  "parseQuantity Null = \<lparr> value_q = Fin 0, unit_q = None \<rparr>
   \<and> parseQuantity Undefined = \<lparr> value_q = Fin 0, unit_q = None \<rparr>
   \<and> parseQuantity (String []) = \<lparr> value_q = Fin 0, unit_q = None \<rparr>
   \<and> parseQuantity (Number (Fin 2)) = \<lparr> value_q = Fin 0, unit_q = None \<rparr>"
  using parseQuantity_not_a_phrase [of Null] parseQuantity_not_a_phrase [of Undefined]
        parseQuantity_not_a_phrase [of "String []"]
        parseQuantity_not_a_phrase [of "Number (Fin 2)"]
  by simp




section \<open>Aggregation\<close>



text \<open>
  C2, as the claim states it, fails: when the resolution of a name returns \<open>null\<close>
  without throwing, the entry has a null nutrition and a null error.
\<close>

theorem unresolved_entry_has_no_error_counterexample:
  "ingredientMapper exampleDb Map.empty noModel ''unicorn dust'' = Inr None
   \<and> nutrition_p (processIngredient (ingredientMapper exampleDb Map.empty noModel) exampleTable
        (exampleIngredient ''unicorn dust'' ''1 cup'')) = None
   \<and> error_p (processIngredient (ingredientMapper exampleDb Map.empty noModel) exampleTable
        (exampleIngredient ''unicorn dust'' ''1 cup'')) = None"
  by code_simp

text \<open>
  C2, amended. In every entry at most one of nutrition and error is populated: the
  nutrition is populated exactly when the name resolved to a row, the error exactly when
  the processing threw, and an entry whose resolution returned \<open>null\<close> without throwing
  has both null.
\<close>

theorem processedIngredient_at_most_one:
  "\<not> (nutrition_p (processIngredient mapper hm i) \<noteq> None
       \<and> error_p (processIngredient mapper hm i) \<noteq> None)
   \<and> (nutrition_p (processIngredient mapper hm i) \<noteq> None \<longleftrightarrow>
        (\<exists>nm row. name i = String nm \<and> mapper (trim (toLowerCase nm)) = Inr (Some row)))
   \<and> (error_p (processIngredient mapper hm i) \<noteq> None \<longleftrightarrow>
        (\<exists>msg. tryBlock mapper hm i = Inl msg))
   \<and> (name i = String nm \<and> mapper (trim (toLowerCase nm)) = Inr None \<longrightarrow>
        nutrition_p (processIngredient mapper hm i) = None
        \<and> error_p (processIngredient mapper hm i) = None)"
  using not_both [of mapper hm i] nutrition_iff_resolved [of mapper hm i]
        error_iff_threw [of mapper hm i] null_resolution [of i nm mapper hm]
  by blast

theorem processedIngredient_at_most_one_witness:
  "name (exampleIngredient ''unicorn dust'' ''1 cup'') = String ''unicorn dust''
   \<and> failingMapper (trim (toLowerCase ''unicorn dust'')) = Inr None
   \<and> nutrition_p (processIngredient failingMapper exampleTable
        (exampleIngredient ''unicorn dust'' ''1 cup'')) = None
   \<and> error_p (processIngredient failingMapper exampleTable
        (exampleIngredient ''unicorn dust'' ''1 cup'')) = None"
proof -
  have n: "name (exampleIngredient ''unicorn dust'' ''1 cup'') = String ''unicorn dust''"
    by (simp add: exampleIngredient_def)
  have m: "failingMapper (trim (toLowerCase ''unicorn dust'')) = Inr None"
    by code_simp
  from processedIngredient_at_most_one
         [of failingMapper exampleTable "exampleIngredient ''unicorn dust'' ''1 cup''"
             "''unicorn dust''"] n m
  show ?thesis by blast
qed

text \<open>
  C5, as the claim states it, fails on a corrupt database: with one entry of infinite
  calories and one of minus infinite calories the sum over the entries is NaN, and the
  total is reported as 0.
\<close>

theorem totals_NaN_sum_counterexample:
  "calories (totalNutrition (aggregate (map
      (processIngredient (ingredientMapper corruptDb Map.empty noModel) exampleTable)
      [exampleIngredient ''syrup'' ''100 g'', exampleIngredient ''ice'' ''100 g'']))) = Fin 0
   \<and> sum_js (map calories (nutritionOf (map
      (processIngredient (ingredientMapper corruptDb Map.empty noModel) exampleTable)
      [exampleIngredient ''syrup'' ''100 g'', exampleIngredient ''ice'' ''100 g'']))) = NaN
   \<and> calculateNutrition (ingredientMapper corruptDb Map.empty noModel) exampleTable
      [exampleIngredient ''syrup'' ''100 g'', exampleIngredient ''ice'' ''100 g'']
     = Inr (aggregate (map
      (processIngredient (ingredientMapper corruptDb Map.empty noModel) exampleTable)
      [exampleIngredient ''syrup'' ''100 g'', exampleIngredient ''ice'' ''100 g'']))"
  by code_simp

text \<open>
  C5, amended. Each of the five totals is the sum of that field over exactly the entries
  whose nutrition is not null, added in the order of the list, a sum that is NaN being
  reported as 0; the total weight is the sum of the weights of those entries; and an
  entry with a null nutrition, wherever it stands in the list, changes no total and not
  the total weight.
\<close>

theorem totals_sum_resolved_entries:
  "calculateNutrition mapper hm ings = Inr r \<Longrightarrow>
     totalNutrition r =
       \<lparr> calories = nanToZero (sum_js (map calories (nutritionOf (processedIngredients r)))),
         protein = nanToZero (sum_js (map protein (nutritionOf (processedIngredients r)))),
         carbs = nanToZero (sum_js (map carbs (nutritionOf (processedIngredients r)))),
         fat = nanToZero (sum_js (map fat (nutritionOf (processedIngredients r)))),
         fiber = nanToZero (sum_js (map fiber (nutritionOf (processedIngredients r)))) \<rparr>
     \<and> totalWeightInGrams r = sum_js (map weight_g (resolved (processedIngredients r)))
     \<and> (\<forall>ps p qs. nutrition_p p = None \<longrightarrow>
           totalNutrition (aggregate (ps @ p # qs)) = totalNutrition (aggregate (ps @ qs))
           \<and> totalWeightInGrams (aggregate (ps @ p # qs))
               = totalWeightInGrams (aggregate (ps @ qs)))"
  using calculateNutrition_eq [of mapper hm ings] aggregate_sums unresolved_contributes_nothing
  by auto

theorem totals_sum_resolved_entries_witness:
  "calculateNutrition (ingredientMapper exampleDb Map.empty noModel) exampleTable
      [exampleIngredient ''onion'' ''2 medium'', exampleIngredient ''unicorn dust'' ''1 cup'',
       exampleIngredient ''cream'' ''50 g'']
     = Inr (aggregate (map
         (processIngredient (ingredientMapper exampleDb Map.empty noModel) exampleTable)
         [exampleIngredient ''onion'' ''2 medium'', exampleIngredient ''unicorn dust'' ''1 cup'',
          exampleIngredient ''cream'' ''50 g'']))
   \<and> calories (totalNutrition (aggregate (map
         (processIngredient (ingredientMapper exampleDb Map.empty noModel) exampleTable)
         [exampleIngredient ''onion'' ''2 medium'', exampleIngredient ''unicorn dust'' ''1 cup'',
          exampleIngredient ''cream'' ''50 g'']))) = Fin 266
   \<and> totalWeightInGrams (aggregate (map
         (processIngredient (ingredientMapper exampleDb Map.empty noModel) exampleTable)
         [exampleIngredient ''onion'' ''2 medium'', exampleIngredient ''unicorn dust'' ''1 cup'',
          exampleIngredient ''cream'' ''50 g''])) = Fin 290"
proof -
  let ?M = "ingredientMapper exampleDb Map.empty noModel"
  let ?L = "[exampleIngredient ''onion'' ''2 medium'', exampleIngredient ''unicorn dust'' ''1 cup'',
       exampleIngredient ''cream'' ''50 g'']"
  let ?ps = "map (processIngredient ?M exampleTable) ?L"
  have c: "calculateNutrition ?M exampleTable ?L = Inr (aggregate ?ps)"
    by (rule calculateNutrition_eq)
  have p: "processedIngredients (aggregate ?ps) = ?ps"
    by (simp add: aggregate_def Let_def)
  have s: "nanToZero (sum_js (map calories (nutritionOf ?ps))) = Fin 266"
    by code_simp
  have w: "sum_js (map weight_g (resolved ?ps)) = Fin 290"
    by code_simp
  from totals_sum_resolved_entries [OF c] have
    "calories (totalNutrition (aggregate ?ps))
       = nanToZero (sum_js (map calories (nutritionOf (processedIngredients (aggregate ?ps)))))"
    "totalWeightInGrams (aggregate ?ps)
       = sum_js (map weight_g (resolved (processedIngredients (aggregate ?ps))))"
    by simp_all
  then show ?thesis using c s w unfolding p by simp
qed




section \<open>Resolution of canonical names\<close>

text \<open>
  C8, as the claim states it, fails: the normalization removes the word \<open>fresh\<close>, so
  with entries \<open>fresh cream\<close> and \<open>cream\<close> the canonical name \<open>fresh cream\<close> resolves to
  \<open>cream\<close>; and a name is put in lower case before it is looked up, so the canonical
  name \<open>Paneer\<close> of a one-row database does not resolve at all.
\<close>

theorem resolve_canonical_name_counterexample:
  "findInNutritionDB exampleDb ''fresh cream'' = Some (exampleRow ''fresh cream'' ''300'')
   \<and> standardizeIngredientName exampleDb Map.empty noModel ''fresh cream'' = Some ''cream''
   \<and> standardizeIngredientName [exampleRow ''Paneer'' ''265''] Map.empty noModel ''Paneer''
       = None"
  by code_simp

text \<open>
  C8, amended. For every canonical name of the database that is made of lower-case
  letters, digits and underscores only, which is the form in which the preparation
  script writes names (\<open>cleanFoodName_chars\<close>), resolving the name returns it unchanged,
  for every synonym table and every answer of the text model, and the lookup of its
  nutrition data returns a row of that name.
\<close>

theorem resolve_canonical_name:
  assumes "c \<noteq> []" and "\<forall>ch\<in>set c. isNameChar ch"
    and "row \<in> set db" and "ingredient row = c"
  shows "standardizeIngredientName db synonyms ai c = Some c
         \<and> (\<exists>r. getNutritionData db synonyms ai c = Some r \<and> ingredient r = c)"
proof -
  have s: "standardizeIngredientName db synonyms ai c = Some c"
    using assms by (rule standardizeIngredientName_nameChars)
  have "findInNutritionDB db c \<noteq> None"
    using findInNutritionDB_present [OF assms(3)] assms(4) by simp
  then obtain r where r: "findInNutritionDB db c = Some r" by auto
  then have "find (\<lambda>item. ingredient item = c) db = Some r"
    by (simp add: findInNutritionDB_def split: if_splits)
  then have "ingredient r = c" unfolding find_Some_iff by blast
  then show ?thesis using s r by (simp add: getNutritionData_def)
qed

theorem resolve_canonical_name_witness:
  "standardizeIngredientName exampleDb [''onion'' \<mapsto> ''cream''] noModel ''onion''
     = Some ''onion''
   \<and> (\<exists>r. getNutritionData exampleDb [''onion'' \<mapsto> ''cream''] noModel ''onion'' = Some r
          \<and> ingredient r = ''onion'')"
  using resolve_canonical_name
          [of "''onion''" "exampleRow ''onion'' ''40''" exampleDb "[''onion'' \<mapsto> ''cream'']"
              noModel]
  by (simp add: isNameChar_def exampleDb_def exampleRow_def)

end
